theory Spec2Isabelle
  imports Main
begin

section \<open>Data model\<close>

text \<open>
  The repository is a "word of the day" application. Its state lives in two places: the
  React provider \<^verbatim>\<open>AppStateProvider\<close> (src/context/AppStateContext.tsx) and the
  Express server's \<^verbatim>\<open>data.json\<close> (the ES module in src/unnamed/part_001).

  JavaScript strings are modelled as \<^typ>\<open>string\<close>; a character stands for one code
  unit below 256. An optional or \<^verbatim>\<open>undefined\<close>/\<^verbatim>\<open>null\<close> field is an option.
  \<^verbatim>\<open>types.ts\<close> is not among the sources: the records list the fields the code reads
  and writes. The fields \<^verbatim>\<open>image\<close>, \<^verbatim>\<open>id\<close>, \<^verbatim>\<open>text\<close> and \<^verbatim>\<open>username\<close> are named
  \<open>image_b64\<close>, \<open>sub_id\<close>, \<open>sub_text\<close> and \<open>sub_username\<close>; \<open>sub_date\<close> and \<open>sub_image\<close>
  are the \<^verbatim>\<open>date\<close> and \<^verbatim>\<open>image\<close> that only the server gives a submission.
\<close>

record daily_word =
  word :: string
  image_b64 :: "string option"
  date :: string
  aiMeaning :: "string option"

record archived_word = daily_word +
  winningDefinitions :: "string list"

record submission =
  sub_id :: string
  sub_text :: string
  sub_username :: string
  likes :: int
  sub_date :: "string option"
  sub_image :: "string option"

datatype ai_provider = Gemini | OpenAI

record api_keys =
  gemini :: string
  openai :: string
  clipdrop :: string

text \<open>
  The provider's state (\<^verbatim>\<open>useState\<close> cells), followed by the items of
  \<^verbatim>\<open>localStorage\<close> the lifecycle reads: the \<^verbatim>\<open>wordData_<date>\<close> entries, and the
  \<^verbatim>\<open>currentWord\<close> and \<^verbatim>\<open>submissions\<close> items (\<open>None\<close> where \<^verbatim>\<open>getItem\<close> gives
  \<^verbatim>\<open>null\<close>). \<^verbatim>\<open>JSON.stringify\<close> and \<^verbatim>\<open>JSON.parse\<close> are the identity on these
  records.
\<close>

record app_state =
  currentWord :: "daily_word option"
  submissions :: "submission list"
  archive :: "archived_word list"
  username :: string
  previousDayResults :: "archived_word option"
  aiProvider :: ai_provider
  apiKeys :: api_keys
  enableImages :: bool
  isLoading :: bool
  isRegeneratingImage :: bool
  wordData :: "string \<rightharpoonup> daily_word"
  stored_currentWord :: "daily_word option"
  stored_submissions :: "submission list option"

text \<open>
  A callback of the provider either returns or lets a JavaScript exception escape; the
  result type makes the second case a value. The callbacks modelled below have no
  \<^verbatim>\<open>throw\<close>, and every service call in them stands in a \<^verbatim>\<open>try\<close> block whose handler
  returns: all their results are \<open>Inr\<close>.
\<close>

datatype js_error = JsError string

text \<open>
  The outside world of one call: the clock, the random sources and the three services
  of \<^verbatim>\<open>services/geminiService\<close> and \<^verbatim>\<open>services/clipdropService\<close>, which are not
  among the sources and are taken as parameters. A service returns \<open>None\<close> where its
  promise rejects. \<open>today\<close> is \<^verbatim>\<open>getTodayDateString()\<close>; one call is taken not to
  straddle midnight.
\<close>

record env =
  today :: string
  generateUniqueId :: string
  getRandomUsername :: string
  summarizeDefinitions ::
    "ai_provider \<Rightarrow> string \<Rightarrow> string \<Rightarrow> submission list \<Rightarrow> string list option"
  generateNonsenseWord :: "ai_provider \<Rightarrow> string \<Rightarrow> string option"
  generateImageWithClipDrop :: "string \<Rightarrow> string \<Rightarrow> string option"

section \<open>Strings\<close>

text \<open>\<^verbatim>\<open>String.prototype.trim\<close>: white space and line terminators, both ends.\<close>

definition isSpace :: "char \<Rightarrow> bool" where
  "isSpace c = (of_char c \<in> {9, 10, 11, 12, 13, 32, 160 :: nat})"

definition trim :: "string \<Rightarrow> string" where
  "trim s = rev (dropWhile isSpace (rev (dropWhile isSpace s)))"

section \<open>Submission intake (client)\<close>

text \<open>
  \<^verbatim>\<open>addSubmission\<close>, lines 307-329. The copy kept under \<^verbatim>\<open>userSubmissions\<close> in
  \<^verbatim>\<open>localStorage\<close> is only read by unreachable code and is left out.
\<close>

definition addSubmission :: "env \<Rightarrow> string \<Rightarrow> app_state \<Rightarrow> js_error + app_state" where
  "addSubmission e t s =
     (if trim t = [] then Inr s
      else
        let finalUsername = (if username s \<noteq> [] then username s else getRandomUsername e);
            newSubmission = \<lparr>sub_id = generateUniqueId e, sub_text = trim t,
              sub_username = finalUsername, likes = 0, sub_date = None, sub_image = None\<rparr>
        in Inr (s\<lparr>submissions := submissions s @ [newSubmission]\<rparr>))"

text \<open>\<^verbatim>\<open>likeSubmission\<close>, lines 336-340.\<close>

definition likeSubmission :: "string \<Rightarrow> app_state \<Rightarrow> js_error + app_state" where
  "likeSubmission i s =
     Inr (s\<lparr>submissions :=
       map (\<lambda>sub. if sub_id sub = i then sub\<lparr>likes := likes sub + 1\<rparr> else sub) (submissions s)\<rparr>)"

section \<open>Runs of the asynchronous callbacks\<close>

text \<open>
  \<^verbatim>\<open>generateNewDay\<close>, \<^verbatim>\<open>manuallySetWord\<close> and \<^verbatim>\<open>regenerateImage\<close> are
  \<^verbatim>\<open>async\<close>: they call several state setters, with awaited service calls in between.
  A run records the state reached (\<open>st\<close>), the state after each setter call in program
  order (\<open>hist\<close>), the service calls made (\<open>calls\<close>) and the \<^verbatim>\<open>alert\<close> messages
  shown (\<open>alerts\<close>). \<^verbatim>\<open>console.error\<close> and \<^verbatim>\<open>showNotification\<close> are left out.
\<close>

datatype gateway_call =
  SummarizeDefinitions string "submission list"
| GenerateNonsenseWord
| GenerateImageWithClipDrop string

record run =
  st :: app_state
  hist :: "app_state list"
  calls :: "gateway_call list"
  alerts :: "string list"

definition begin_run :: "app_state \<Rightarrow> run" where
  "begin_run s = \<lparr>st = s, hist = [], calls = [], alerts = []\<rparr>"

definition upd :: "(app_state \<Rightarrow> app_state) \<Rightarrow> run \<Rightarrow> run" where
  "upd f r = r\<lparr>st := f (st r), hist := hist r @ [f (st r)]\<rparr>"

definition invoke :: "gateway_call \<Rightarrow> run \<Rightarrow> run" where
  "invoke c r = r\<lparr>calls := calls r @ [c]\<rparr>"

definition alert :: "string \<Rightarrow> run \<Rightarrow> run" where
  "alert m r = r\<lparr>alerts := alerts r @ [m]\<rparr>"

definition setIsLoading :: "bool \<Rightarrow> run \<Rightarrow> run" where
  "setIsLoading b = upd (\<lambda>s. s\<lparr>isLoading := b\<rparr>)"

definition setIsRegeneratingImage :: "bool \<Rightarrow> run \<Rightarrow> run" where
  "setIsRegeneratingImage b = upd (\<lambda>s. s\<lparr>isRegeneratingImage := b\<rparr>)"

definition setCurrentWord :: "daily_word option \<Rightarrow> run \<Rightarrow> run" where
  "setCurrentWord w = upd (\<lambda>s. s\<lparr>currentWord := w\<rparr>)"

definition setSubmissions :: "submission list \<Rightarrow> run \<Rightarrow> run" where
  "setSubmissions xs = upd (\<lambda>s. s\<lparr>submissions := xs\<rparr>)"

definition setArchive :: "(archived_word list \<Rightarrow> archived_word list) \<Rightarrow> run \<Rightarrow> run" where
  "setArchive f = upd (\<lambda>s. s\<lparr>archive := f (archive s)\<rparr>)"

definition setPreviousDayResults :: "archived_word option \<Rightarrow> run \<Rightarrow> run" where
  "setPreviousDayResults a = upd (\<lambda>s. s\<lparr>previousDayResults := a\<rparr>)"

text \<open>\<^verbatim>\<open>localStorage.setItem\<close> on the \<^verbatim>\<open>wordData\<close> key of the day (line 182).\<close>

definition setItem_wordData :: "string \<Rightarrow> daily_word \<Rightarrow> run \<Rightarrow> run" where
  "setItem_wordData d w = upd (\<lambda>s. s\<lparr>wordData := (wordData s)(d \<mapsto> w)\<rparr>)"

section \<open>Lifecycle (client)\<close>

text \<open>\<^verbatim>\<open>{ ...currentWord, winningDefinitions }\<close>\<close>

definition archivedEntry :: "daily_word \<Rightarrow> string list \<Rightarrow> archived_word" where
  "archivedEntry cw ds = \<lparr>word = word cw, image_b64 = image_b64 cw, date = date cw,
     aiMeaning = aiMeaning cw, winningDefinitions = ds\<rparr>"

definition sentinel :: "string list" where
  "sentinel = [''No definitions were submitted for this word.'']"

text \<open>\<^verbatim>\<open>getApiKey\<close>, lines 116-118.\<close>

definition getApiKey :: "app_state \<Rightarrow> string" where
  "getApiKey s = (if aiProvider s = Gemini then gemini (apiKeys s) else openai (apiKeys s))"

text \<open>
  \<^verbatim>\<open>generateNewDay\<close>, step 1 (lines 137-154): archive the outgoing word. The word,
  the submissions and the keys are the values of the render the callback was made in
  (\<open>s\<close>); the archive is updated through its setter.
\<close>

definition archiveOutgoing :: "env \<Rightarrow> app_state \<Rightarrow> run \<Rightarrow> run" where
  "archiveOutgoing e s r =
     (case currentWord s of
        None \<Rightarrow> r
      | Some cw \<Rightarrow>
          if submissions s \<noteq> [] then
            (if gemini (apiKeys s) \<noteq> [] then
               (let r1 = invoke (SummarizeDefinitions (word cw) (submissions s)) r in
                case summarizeDefinitions e Gemini (gemini (apiKeys s)) (word cw) (submissions s) of
                  None \<Rightarrow> r1
                | Some defs \<Rightarrow>
                    setPreviousDayResults (Some (archivedEntry cw defs))
                      (setArchive (\<lambda>prev. archivedEntry cw defs # prev) r1))
             else r)
          else
            setPreviousDayResults (Some (archivedEntry cw sentinel))
              (setArchive (\<lambda>prev. archivedEntry cw sentinel # prev) r))"

text \<open>
  Step 3 (lines 159-189): the cached word of today if there is one, else a generated
  word with an optional image, else (the \<^verbatim>\<open>catch\<close>) the placeholder. The
  \<^verbatim>\<open>finally\<close> block runs on every path, also after the early \<^verbatim>\<open>return\<close>.
\<close>

definition errorWord :: "env \<Rightarrow> daily_word" where
  "errorWord e = \<lparr>word = ''Error'', image_b64 = None, date = today e, aiMeaning = None\<rparr>"

definition newWord :: "env \<Rightarrow> app_state \<Rightarrow> run \<Rightarrow> run" where
  "newWord e s r =
     (case wordData (st r) (today e) of
        Some cached \<Rightarrow> setIsLoading False (setIsLoading False (setCurrentWord (Some cached) r))
      | None \<Rightarrow>
          (let r1 = invoke GenerateNonsenseWord r in
           case generateNonsenseWord e (aiProvider s) (getApiKey s) of
             None \<Rightarrow> setIsLoading False (setCurrentWord (Some (errorWord e)) r1)
           | Some w \<Rightarrow>
               (let attempt = (enableImages s \<and> clipdrop (apiKeys s) \<noteq> []);
                    r2 = (if attempt then invoke (GenerateImageWithClipDrop w) r1 else r1);
                    img = (if attempt then generateImageWithClipDrop e (clipdrop (apiKeys s)) w
                           else None);
                    wd = \<lparr>word = w, image_b64 = img, date = today e, aiMeaning = None\<rparr>
                in setIsLoading False (setCurrentWord (Some wd) (setItem_wordData (today e) wd r2)))))"

text \<open>
  \<^verbatim>\<open>generateNewDay\<close>, lines 134-190. No exception leaves the callback: the service
  calls are inside \<^verbatim>\<open>try\<close> blocks whose handlers only log or set the placeholder.
\<close>

definition generateNewDay :: "env \<Rightarrow> app_state \<Rightarrow> js_error + run" where
  "generateNewDay e s =
     (let r0 = setIsLoading True (begin_run s);
          r1 = archiveOutgoing e s r0;
          r2 = setSubmissions [] r1
      in Inr (newWord e s r2))"

text \<open>
  The provider has other writers of the pool, which run whenever the event loop is free,
  so also while \<^verbatim>\<open>generateNewDay\<close> is suspended in an \<^verbatim>\<open>await\<close>: the poll of
  \<^verbatim>\<open>/api/submissions\<close> (lines 237-250), which replaces the pool by the list the
  backend holds and stores it, and the appends of \<^verbatim>\<open>addSubmission\<close> (line 316) and
  \<^verbatim>\<open>addSubmissionFromServer\<close> (line 333). \<open>applyPoolWrite\<close> is what one such write
  makes of the pool, \<open>poolWrite\<close> is the write on a run.
\<close>

datatype pool_write = Poll "submission list" | Append submission

fun applyPoolWrite :: "pool_write \<Rightarrow> submission list \<Rightarrow> submission list" where
  "applyPoolWrite (Poll fetched) prev = fetched"
| "applyPoolWrite (Append x) prev = prev @ [x]"

fun poolWrite :: "pool_write \<Rightarrow> run \<Rightarrow> run" where
  "poolWrite (Poll fetched) r =
     upd (\<lambda>s. s\<lparr>stored_submissions := Some fetched\<rparr>) (setSubmissions fetched r)"
| "poolWrite (Append x) r = upd (\<lambda>s. s\<lparr>submissions := submissions s @ [x]\<rparr>) r"

text \<open>
  \<^verbatim>\<open>generateNewDay\<close> with the pool writes \<open>ws\<close> that other writers make, in their
  order, between the clearing of line 157 and the next setter call of
  \<^verbatim>\<open>generateNewDay\<close> (line 183 or 186), that is while the word generator of line 170
  or the image generator of line 175 is awaited. \<^verbatim>\<open>generateNewDay\<close> writes no state
  of the provider in between, so the writes are placed after the call of the word
  generator. With a cached word there is no \<^verbatim>\<open>await\<close> between the two setter calls,
  and no write comes between them. Step 3 is otherwise as in \<open>newWord\<close>.
\<close>

definition newWordAmid :: "env \<Rightarrow> app_state \<Rightarrow> pool_write list \<Rightarrow> run \<Rightarrow> run" where
  "newWordAmid e s ws r =
     (case wordData (st r) (today e) of
        Some cached \<Rightarrow> setIsLoading False (setIsLoading False (setCurrentWord (Some cached) r))
      | None \<Rightarrow>
          (let r1 = fold poolWrite ws (invoke GenerateNonsenseWord r) in
           case generateNonsenseWord e (aiProvider s) (getApiKey s) of
             None \<Rightarrow> setIsLoading False (setCurrentWord (Some (errorWord e)) r1)
           | Some w \<Rightarrow>
               (let attempt = (enableImages s \<and> clipdrop (apiKeys s) \<noteq> []);
                    r2 = (if attempt then invoke (GenerateImageWithClipDrop w) r1 else r1);
                    img = (if attempt then generateImageWithClipDrop e (clipdrop (apiKeys s)) w
                           else None);
                    wd = \<lparr>word = w, image_b64 = img, date = today e, aiMeaning = None\<rparr>
                in setIsLoading False (setCurrentWord (Some wd) (setItem_wordData (today e) wd r2)))))"

definition generateNewDayAmid :: "env \<Rightarrow> pool_write list \<Rightarrow> app_state \<Rightarrow> js_error + run" where
  "generateNewDayAmid e ws s =
     (let r0 = setIsLoading True (begin_run s);
          r1 = archiveOutgoing e s r0;
          r2 = setSubmissions [] r1
      in Inr (newWordAmid e s ws r2))"

text \<open>\<^verbatim>\<open>manuallySetWord\<close>, lines 347-367.\<close>

definition manuallySetWord :: "env \<Rightarrow> string \<Rightarrow> app_state \<Rightarrow> js_error + run" where
  "manuallySetWord e w s =
     (let r0 = setIsLoading True (begin_run s);
          attempt = (clipdrop (apiKeys s) \<noteq> []);
          r1 = (if attempt then invoke (GenerateImageWithClipDrop w) r0 else r0);
          img = (if attempt then generateImageWithClipDrop e (clipdrop (apiKeys s)) w else None);
          nw = \<lparr>word = w, image_b64 = img, date = today e, aiMeaning = None\<rparr>
      in Inr (setIsLoading False (setSubmissions [] (setCurrentWord (Some nw) r1))))"

text \<open>
  \<^verbatim>\<open>regenerateImage\<close>, lines 392-408. The setter is given an updater
  (\<^verbatim>\<open>prev => prev ? { ...prev, image } : null\<close>).
\<close>

definition regenerateImage :: "env \<Rightarrow> app_state \<Rightarrow> js_error + run" where
  "regenerateImage e s =
     (case currentWord s of
        None \<Rightarrow> Inr (begin_run s)
      | Some cw \<Rightarrow>
          (let r0 = setIsRegeneratingImage True (begin_run s) in
           if clipdrop (apiKeys s) \<noteq> [] then
             (let r1 = invoke (GenerateImageWithClipDrop (word cw)) r0 in
              case generateImageWithClipDrop e (clipdrop (apiKeys s)) (word cw) of
                Some img \<Rightarrow>
                  Inr (setIsRegeneratingImage False
                    (upd (\<lambda>p. p\<lparr>currentWord :=
                       map_option (\<lambda>prev. prev\<lparr>image_b64 := Some img\<rparr>) (currentWord p)\<rparr>) r1))
              | None \<Rightarrow>
                  Inr (setIsRegeneratingImage False
                    (alert ''Image regeneration failed. Check ClipDrop API key and console for errors.'' r1)))
           else Inr (setIsRegeneratingImage False r0)))"

text \<open>
  Successive calls of \<^verbatim>\<open>generateNewDay\<close>, each made in the render that follows the
  previous call.
\<close>

fun repeatNewDay :: "nat \<Rightarrow> env \<Rightarrow> app_state \<Rightarrow> js_error + app_state" where
  "repeatNewDay 0 e s = Inr s"
| "repeatNewDay (Suc n) e s =
     (case generateNewDay e s of Inl err \<Rightarrow> Inl err | Inr r \<Rightarrow> repeatNewDay n e (st r))"

text \<open>
  \<^verbatim>\<open>saveStateToLocalStorage\<close> (lines 120-132), as the persisting effect of lines
  294-297 calls it, for the two items read back when the provider mounts.
\<close>

definition saveStateToLocalStorage :: "app_state \<Rightarrow> app_state" where
  "saveStateToLocalStorage s =
     s\<lparr>stored_currentWord :=
         (case currentWord s of None \<Rightarrow> stored_currentWord s | Some w \<Rightarrow> Some w),
       stored_submissions := Some (submissions s)\<rparr>"

text \<open>
  \<^verbatim>\<open>tryLoadFromBackend\<close> of the mount effect (lines 209-232). \<open>backend\<close> is the answer of
  \<^verbatim>\<open>GET /api/current\<close>: \<open>None\<close> where the request fails or is not ok, else the JSON
  value (\<^verbatim>\<open>null\<close> as \<open>None\<close>); \<open>backendWord\<close> is the word the backend offers for today
  (lines 211-219). The polling of \<^verbatim>\<open>/api/submissions\<close> is left out.
\<close>

definition backendWord :: "env \<Rightarrow> daily_word option option \<Rightarrow> daily_word option" where
  "backendWord e backend =
     (case backend of
        Some (Some dat) \<Rightarrow> if date dat = today e then Some dat else None
      | _ \<Rightarrow> None)"

definition tryLoadFromBackend ::
  "env \<Rightarrow> daily_word option option \<Rightarrow> app_state \<Rightarrow> js_error + run" where
  "tryLoadFromBackend e backend s =
     (case backendWord e backend of
        Some dat \<Rightarrow> Inr (setIsLoading False (setCurrentWord (Some dat) (begin_run s)))
      | None \<Rightarrow>
          (case stored_currentWord s of
             None \<Rightarrow> generateNewDay e s
           | Some loadedWord \<Rightarrow>
               if date loadedWord = today e then
                 Inr (setIsLoading False
                   ((case stored_submissions s of
                       None \<Rightarrow> (\<lambda>r. r)
                     | Some saved \<Rightarrow> setSubmissions saved)
                    (setCurrentWord (Some loadedWord) (begin_run s))))
               else generateNewDay e s))"

text \<open>The three parts of the state that make the spec's ledger.\<close>

definition ledgerOf :: "app_state \<Rightarrow> daily_word option \<times> submission list \<times> archived_word list" where
  "ledgerOf s = (currentWord s, submissions s, archive s)"

fun isSummarize :: "gateway_call \<Rightarrow> bool" where
  "isSummarize (SummarizeDefinitions w xs) = True"
| "isSummarize c = False"

section \<open>The server (ES module of src/unnamed/part_001) and the serverless handler\<close>

text \<open>
  \<^verbatim>\<open>data.json\<close> holds \<^verbatim>\<open>{ current, submissions, archive }\<close>; \<^verbatim>\<open>readData\<close> and
  \<^verbatim>\<open>writeData\<close> are taken to succeed. A handler answers with a JSON value or with a
  status and an error message; the models of the two routes that write pair the answer
  with the content of \<^verbatim>\<open>data.json\<close> after the request.
\<close>

record ledger =
  data_current :: "daily_word option"
  data_submissions :: "submission list"
  data_archive :: "archived_word list"

datatype http_error = HttpError nat string

text \<open>
  The two prompts sent to \<^verbatim>\<open>client.models.generateContent\<close>, and what the call gives:
  a rejected promise with its message, or a response whose \<^verbatim>\<open>text\<close> may be undefined.
\<close>

datatype prompt = WordPrompt | MeaningPrompt string

datatype reply = Rejects string | Response "string option"

record server_env =
  isoDate :: string
  isoNow :: string
  uuidv4 :: string
  randomUsername :: string
  GEMINI_API_KEY :: "string option"
  generateContent :: "prompt \<Rightarrow> reply"
  clipdropImage :: "string \<Rightarrow> string option"
  providerImage :: "string \<Rightarrow> string \<Rightarrow> string option"

text \<open>JavaScript truthiness of an optional string, and \<^verbatim>\<open>a || b\<close>.\<close>

definition truthy :: "string option \<Rightarrow> bool" where
  "truthy x = (x \<noteq> None \<and> x \<noteq> Some [])"

definition orElse :: "string option \<Rightarrow> string option \<Rightarrow> string option" where
  "orElse a b = (if truthy a then a else b)"

definition textOf :: "string option \<Rightarrow> string" where
  "textOf x = (case x of None \<Rightarrow> [] | Some t \<Rightarrow> t)"

text \<open>The character class \<^verbatim>\<open>[a-zA-Z]\<close>.\<close>

definition isAlpha :: "char \<Rightarrow> bool" where
  "isAlpha c = ((97 \<le> (of_char c :: nat) \<and> (of_char c :: nat) \<le> 122)
             \<or> (65 \<le> (of_char c :: nat) \<and> (of_char c :: nat) \<le> 90))"

text \<open>
  \<^verbatim>\<open>const raw = (response.text || '').trim();\<close>
  \<^verbatim>\<open>const word = raw.replace(/[^a-zA-Z]/g, '').slice(0, 12);\<close>
\<close>

definition wordOfResponse :: "string option \<Rightarrow> string" where
  "wordOfResponse t = take 12 (filter isAlpha (trim (textOf t)))"


text \<open>The body of a request to \<^verbatim>\<open>/api/generate\<close> and to \<^verbatim>\<open>/api/submit\<close>.\<close>

record generate_body =
  geminiKey :: "string option"
  clipdropKey :: "string option"

record submit_body =
  body_text :: "string option"
  body_username :: "string option"
  imageProvider :: "string option"

text \<open>\<^verbatim>\<open>app.post('/api/generate', ...)\<close>, lines 258-317.\<close>

definition api_generate ::
  "server_env \<Rightarrow> generate_body \<Rightarrow> ledger \<Rightarrow> (http_error + daily_word) \<times> ledger" where
  "api_generate e b d =
     (let apiKey = orElse (geminiKey b) (GEMINI_API_KEY e) in
      if \<not> truthy apiKey \<or> apiKey = Some ''PLACEHOLDER_API_KEY''
        then (Inl (HttpError 500 ''GEMINI_API_KEY not configured''), d)
      else
        (case generateContent e WordPrompt of
           Rejects msg \<Rightarrow> (Inl (HttpError 500 ''Generation failed''), d)
         | Response t \<Rightarrow>
             (let w = wordOfResponse t in
              case generateContent e (MeaningPrompt w) of
                Rejects msg \<Rightarrow> (Inl (HttpError 500 ''Generation failed''), d)
              | Response mt \<Rightarrow>
                  (let cur = \<lparr>word = w, image_b64 = clipdropImage e w, date = isoDate e,
                              aiMeaning = Some (trim (textOf mt))\<rparr>
                   in (Inr cur, d\<lparr>data_current := Some cur, data_submissions := []\<rparr>)))))"

text \<open>
  \<^verbatim>\<open>app.post('/api/submit', ...)\<close>, lines 165-250. The inner \<^verbatim>\<open>generateImage\<close>
  asks a provider only for the three names it knows and never rejects.
\<close>

definition submissionImage :: "server_env \<Rightarrow> string option \<Rightarrow> string \<Rightarrow> string option" where
  "submissionImage e p t =
     (case p of
        None \<Rightarrow> None
      | Some n \<Rightarrow> if n \<in> {''gemini'', ''chatgpt'', ''clipdrop''} then providerImage e n t else None)"

definition api_submit ::
  "server_env \<Rightarrow> submit_body \<Rightarrow> ledger \<Rightarrow> (http_error + submission) \<times> ledger" where
  "api_submit e b d =
     (if \<not> truthy (body_text b) \<or> trim (textOf (body_text b)) = []
        then (Inl (HttpError 400 ''Text is required''), d)
      else
        (let t = textOf (body_text b);
             user = (if truthy (body_username b) \<and> trim (textOf (body_username b)) \<noteq> []
                     then trim (textOf (body_username b)) else randomUsername e);
             sub = \<lparr>sub_id = uuidv4 e, sub_text = trim t, sub_username = user, likes = 0,
                    sub_date = Some (isoNow e), sub_image = submissionImage e (imageProvider b) t\<rparr>
         in (Inr sub, d\<lparr>data_submissions := data_submissions d @ [sub]\<rparr>)))"

section \<open>What the steps of generateNewDay give\<close>

text \<open>
  The entry that lines 138-154 put at the head of the archive, if any: the sentinel
  entry for an empty pool, the summarized entry when a Gemini key is set and the
  summary succeeds, and nothing when there is no current word, no key, or the summary
  fails.
\<close>

definition outgoingEntry :: "env \<Rightarrow> app_state \<Rightarrow> archived_word option" where
  "outgoingEntry e s =
     (case currentWord s of
        None \<Rightarrow> None
      | Some cw \<Rightarrow>
          if submissions s = [] then Some (archivedEntry cw sentinel)
          else if gemini (apiKeys s) = [] then None
          else map_option (archivedEntry cw)
                 (summarizeDefinitions e Gemini (gemini (apiKeys s)) (word cw) (submissions s)))"

text \<open>
  The word that lines 159-186 make the current word: the cached word of today, else the
  generated word with the image if one was asked for and made, else the placeholder.
\<close>

definition nextWord :: "env \<Rightarrow> app_state \<Rightarrow> daily_word" where
  "nextWord e s =
     (case wordData s (today e) of
        Some cached \<Rightarrow> cached
      | None \<Rightarrow>
          (case generateNonsenseWord e (aiProvider s) (getApiKey s) of
             None \<Rightarrow> errorWord e
           | Some w \<Rightarrow>
               \<lparr>word = w,
                image_b64 = (if enableImages s \<and> clipdrop (apiKeys s) \<noteq> []
                             then generateImageWithClipDrop e (clipdrop (apiKeys s)) w else None),
                date = today e, aiMeaning = None\<rparr>))"

section \<open>Concrete inputs\<close>

text \<open>
  The scenario of the spec: the word Blorvek of 2024-01-01 with one submission, and a
  call on 2024-01-02. \<open>world w img\<close> is a day on which word generation gives \<open>w\<close> and
  image generation gives \<open>img\<close> (\<open>None\<close>: the service fails).
\<close>

definition blorvek :: daily_word where
  "blorvek = \<lparr>word = ''Blorvek'', image_b64 = None, date = ''2024-01-01'', aiMeaning = None\<rparr>"

definition zorble :: daily_word where
  "zorble = \<lparr>word = ''Zorble'', image_b64 = None, date = ''2024-01-02'', aiMeaning = None\<rparr>"

definition feeling :: submission where
  "feeling = \<lparr>sub_id = ''s1'', sub_text = ''a floating feeling'',
     sub_username = ''Curious-Duck-7'', likes = 0, sub_date = None, sub_image = None\<rparr>"

definition state0 :: app_state where
  "state0 = \<lparr>currentWord = Some blorvek, submissions = [feeling], archive = [], username = [],
     previousDayResults = None, aiProvider = OpenAI,
     apiKeys = \<lparr>gemini = ''g-key'', openai = [], clipdrop = ''c-key''\<rparr>,
     enableImages = True, isLoading = False, isRegeneratingImage = False,
     wordData = Map.empty, stored_currentWord = None, stored_submissions = None\<rparr>"

definition world :: "string option \<Rightarrow> string option \<Rightarrow> env" where
  "world w img = \<lparr>today = ''2024-01-02'', generateUniqueId = ''u1'',
     getRandomUsername = ''Sleepy-Orb-3'',
     summarizeDefinitions = (\<lambda>p k w xs. Some [''a floating feeling'']),
     generateNonsenseWord = (\<lambda>p k. w),
     generateImageWithClipDrop = (\<lambda>k w. img)\<rparr>"

text \<open>A state whose current word is already today's, with that word in the cache.\<close>

definition cachedState :: app_state where
  "cachedState = state0\<lparr>currentWord := Some zorble, wordData := [''2024-01-02'' \<mapsto> zorble]\<rparr>"

text \<open>The state \<open>state0\<close> is left in by a call whose word generation fails.\<close>

definition afterFailure :: app_state where
  "afterFailure = state0\<lparr>
     currentWord := Some \<lparr>word = ''Error'', image_b64 = None, date = ''2024-01-02'',
                          aiMeaning = None\<rparr>,
     submissions := [],
     archive := [archivedEntry blorvek [''a floating feeling'']],
     previousDayResults := Some (archivedEntry blorvek [''a floating feeling''])\<rparr>"

text \<open>A server whose Gemini call for the word gives \<open>rep\<close>, and a ledger with content.\<close>

definition serverWorld :: "reply \<Rightarrow> server_env" where
  "serverWorld rep = \<lparr>isoDate = ''2024-01-02'', isoNow = ''2024-01-02T09:00:00.000Z'',
     uuidv4 = ''id-1'', randomUsername = ''Vivid-Quasar-9'', GEMINI_API_KEY = Some ''key'',
     generateContent =
       (\<lambda>p. case p of WordPrompt \<Rightarrow> rep | MeaningPrompt w \<Rightarrow> Response (Some ''a meaning'')),
     clipdropImage = (\<lambda>w. None), providerImage = (\<lambda>n t. None)\<rparr>"

definition data0 :: ledger where
  "data0 = \<lparr>data_current = Some blorvek, data_submissions = [feeling], data_archive = []\<rparr>"

definition noBody :: generate_body where
  "noBody = \<lparr>geminiKey = None, clipdropKey = None\<rparr>"

section \<open>Auxiliary facts\<close>

subsection \<open>Runs\<close>

lemma st_upd [simp]: "st (upd f r) = f (st r)"
  and hist_upd [simp]: "hist (upd f r) = hist r @ [f (st r)]"
  and calls_upd [simp]: "calls (upd f r) = calls r"
  and alerts_upd [simp]: "alerts (upd f r) = alerts r"
  by (simp_all add: upd_def)

lemma st_invoke [simp]: "st (invoke c r) = st r"
  and hist_invoke [simp]: "hist (invoke c r) = hist r"
  and calls_invoke [simp]: "calls (invoke c r) = calls r @ [c]"
  and alerts_invoke [simp]: "alerts (invoke c r) = alerts r"
  by (simp_all add: invoke_def)

lemma st_alert [simp]: "st (alert m r) = st r"
  and hist_alert [simp]: "hist (alert m r) = hist r"
  and calls_alert [simp]: "calls (alert m r) = calls r"
  and alerts_alert [simp]: "alerts (alert m r) = alerts r @ [m]"
  by (simp_all add: alert_def)

lemma begin_run_simps [simp]:
  "st (begin_run s) = s" "hist (begin_run s) = []"
  "calls (begin_run s) = []" "alerts (begin_run s) = []"
  by (simp_all add: begin_run_def)

lemmas setters = setIsLoading_def setIsRegeneratingImage_def setCurrentWord_def
  setSubmissions_def setArchive_def setPreviousDayResults_def setItem_wordData_def

lemmas callback_defs = generateNewDay_def newWord_def archiveOutgoing_def manuallySetWord_def
  generateNewDayAmid_def newWordAmid_def
  regenerateImage_def tryLoadFromBackend_def backendWord_def saveStateToLocalStorage_def
  setters errorWord_def getApiKey_def ledgerOf_def outgoingEntry_def Let_def

lemmas example_defs = state0_def world_def blorvek_def feeling_def zorble_def cachedState_def
  afterFailure_def archivedEntry_def sentinel_def

subsection \<open>Step 1 of generateNewDay\<close>

lemma archiveOutgoing_st:
  "st (archiveOutgoing e s r) =
     (case outgoingEntry e s of
        None \<Rightarrow> st r
      | Some a \<Rightarrow> (st r)\<lparr>archive := a # archive (st r), previousDayResults := Some a\<rparr>)"
  by (simp add: archiveOutgoing_def outgoingEntry_def setters Let_def split: option.splits)

lemma archiveOutgoing_hist_all:
  "x \<in> set (hist (archiveOutgoing e s (setIsLoading True (begin_run s)))) \<Longrightarrow>
   currentWord x = currentWord s \<and> submissions x = submissions s \<and>
   (archive x = archive s \<or>
    archive x = (case outgoingEntry e s of None \<Rightarrow> archive s | Some a \<Rightarrow> a # archive s))"
  by (auto simp add: archiveOutgoing_def outgoingEntry_def setters Let_def
      split: option.splits if_splits)

lemma archiveOutgoing_calls:
  "GenerateNonsenseWord \<notin> set (calls r) \<Longrightarrow>
   GenerateNonsenseWord \<notin> set (calls (archiveOutgoing e s r))"
  by (auto simp add: archiveOutgoing_def setters Let_def split: option.splits if_splits)

lemma generateNewDay_Inr:
  "generateNewDay e s =
     Inr (newWord e s (setSubmissions [] (archiveOutgoing e s (setIsLoading True (begin_run s)))))"
  by (simp add: generateNewDay_def)

lemma pre_st:
  "st (setSubmissions [] (archiveOutgoing e s (setIsLoading True (begin_run s)))) =
     (case outgoingEntry e s of
        None \<Rightarrow> s\<lparr>isLoading := True, submissions := []\<rparr>
      | Some a \<Rightarrow> s\<lparr>isLoading := True, archive := a # archive s,
                     previousDayResults := Some a, submissions := []\<rparr>)"
  by (simp add: archiveOutgoing_st setters split: option.splits)

subsection \<open>Step 3 of generateNewDay\<close>

lemma newWord_cached:
  "wordData (st r) (today e) = Some w \<Longrightarrow>
   st (newWord e s r) = (st r)\<lparr>currentWord := Some w, isLoading := False\<rparr> \<and>
   calls (newWord e s r) = calls r"
  by (simp add: newWord_def setters)

lemma newWord_failure:
  "wordData (st r) (today e) = None \<Longrightarrow>
   generateNonsenseWord e (aiProvider s) (getApiKey s) = None \<Longrightarrow>
   st (newWord e s r) = (st r)\<lparr>currentWord := Some (errorWord e), isLoading := False\<rparr> \<and>
   calls (newWord e s r) = calls r @ [GenerateNonsenseWord]"
  by (simp add: newWord_def setters Let_def)

lemma newWord_ledger:
  "wordData (st r) = wordData s \<Longrightarrow>
   currentWord (st (newWord e s r)) = Some (nextWord e s) \<and>
   submissions (st (newWord e s r)) = submissions (st r) \<and>
   archive (st (newWord e s r)) = archive (st r)"
  by (simp add: newWord_def nextWord_def setters Let_def split: option.splits)

lemma newWord_hist_split:
  "hist (newWord e s r) = hist r @ drop (length (hist r)) (hist (newWord e s r)) \<and>
   drop (length (hist r)) (hist (newWord e s r)) \<noteq> [] \<and>
   (\<forall>x \<in> set (drop (length (hist r)) (hist (newWord e s r))).
      submissions x = submissions (st r) \<and> archive x = archive (st r)) \<and>
   last (drop (length (hist r)) (hist (newWord e s r))) = st (newWord e s r)"
  by (simp add: newWord_def setters Let_def split: option.splits)

subsection \<open>Step 3 with the writes of the other writers\<close>

lemma newWordAmid_Nil: "newWordAmid e s [] r = newWord e s r"
  by (simp add: newWordAmid_def newWord_def Let_def split: option.splits)

lemma generateNewDayAmid_Nil: "generateNewDayAmid e [] s = generateNewDay e s"
  by (simp add: generateNewDayAmid_def generateNewDay_def newWordAmid_Nil)

lemma fold_poolWrite_fields:
  "submissions (st (fold poolWrite ws r)) = fold applyPoolWrite ws (submissions (st r)) \<and>
   currentWord (st (fold poolWrite ws r)) = currentWord (st r) \<and>
   archive (st (fold poolWrite ws r)) = archive (st r) \<and>
   wordData (st (fold poolWrite ws r)) = wordData (st r)"
proof (induction ws arbitrary: r)
  case Nil
  then show ?case by simp
next
  case (Cons w ws)
  show ?case
    by (cases w) (simp_all add: Cons.IH setSubmissions_def)
qed

lemma newWordAmid_ledger:
  "wordData (st r) = wordData s \<Longrightarrow> wordData s (today e) = None \<Longrightarrow>
   currentWord (st (newWordAmid e s ws r)) = Some (nextWord e s) \<and>
   submissions (st (newWordAmid e s ws r)) = fold applyPoolWrite ws (submissions (st r)) \<and>
   archive (st (newWordAmid e s ws r)) = archive (st r)"
  by (simp add: newWordAmid_def nextWord_def setters Let_def fold_poolWrite_fields
      split: option.splits)

subsection \<open>Whole calls of generateNewDay\<close>

lemma generateNewDay_phases:
  "\<exists>r h1 s2 h3. generateNewDay e s = Inr r \<and> hist r = h1 @ [s2] @ h3 \<and>
     (\<forall>x \<in> set h1. currentWord x = currentWord s \<and> submissions x = submissions s \<and>
        (archive x = archive s \<or>
         archive x = (case outgoingEntry e s of None \<Rightarrow> archive s | Some a \<Rightarrow> a # archive s))) \<and>
     ledgerOf s2 = (currentWord s, [],
        (case outgoingEntry e s of None \<Rightarrow> archive s | Some a \<Rightarrow> a # archive s)) \<and>
     h3 \<noteq> [] \<and>
     (\<forall>x \<in> set h3. submissions x = [] \<and>
        archive x = (case outgoingEntry e s of None \<Rightarrow> archive s | Some a \<Rightarrow> a # archive s)) \<and>
     last h3 = st r \<and>
     ledgerOf (st r) = (Some (nextWord e s), [],
        (case outgoingEntry e s of None \<Rightarrow> archive s | Some a \<Rightarrow> a # archive s))"
proof -
  let ?A = "case outgoingEntry e s of None \<Rightarrow> archive s | Some a \<Rightarrow> a # archive s"
  let ?a = "archiveOutgoing e s (setIsLoading True (begin_run s))"
  let ?p = "setSubmissions [] ?a"
  let ?r = "newWord e s ?p"
  let ?h3 = "drop (length (hist ?p)) (hist ?r)"
  have p: "submissions (st ?p) = []" "archive (st ?p) = ?A" "currentWord (st ?p) = currentWord s"
    "wordData (st ?p) = wordData s"
    by (simp_all add: pre_st split: option.splits)
  have hp: "hist ?p = hist ?a @ [st ?p]"
    by (simp add: setSubmissions_def)
  have split: "hist ?r = hist ?p @ ?h3" "?h3 \<noteq> []"
    "\<forall>x \<in> set ?h3. submissions x = submissions (st ?p) \<and> archive x = archive (st ?p)"
    "last ?h3 = st ?r"
    using newWord_hist_split [of e s ?p] by blast+
  have fin: "ledgerOf (st ?r) = (Some (nextWord e s), [], ?A)"
    using newWord_ledger [OF p(4), of e] p by (simp add: ledgerOf_def)
  have 1: "generateNewDay e s = Inr ?r"
    by (rule generateNewDay_Inr)
  have 2: "hist ?r = hist ?a @ [st ?p] @ ?h3"
    using split(1) hp by simp
  have 3: "\<forall>x \<in> set (hist ?a). currentWord x = currentWord s \<and> submissions x = submissions s \<and>
        (archive x = archive s \<or> archive x = ?A)"
    using archiveOutgoing_hist_all [of _ e s] by blast
  have 4: "ledgerOf (st ?p) = (currentWord s, [], ?A)"
    using p by (simp add: ledgerOf_def)
  have 5: "\<forall>x \<in> set ?h3. submissions x = [] \<and> archive x = ?A"
    using split(3) p by simp
  show ?thesis
    using 1 2 3 4 split(2) 5 split(4) fin by blast
qed

lemma generateNewDayAmid_ledger:
  assumes "wordData s (today e) = None"
  shows "\<exists>r. generateNewDayAmid e ws s = Inr r \<and>
     ledgerOf (st r) = (Some (nextWord e s), fold applyPoolWrite ws [],
        (case outgoingEntry e s of None \<Rightarrow> archive s | Some a \<Rightarrow> a # archive s))"
proof -
  let ?p = "setSubmissions [] (archiveOutgoing e s (setIsLoading True (begin_run s)))"
  have p: "submissions (st ?p) = []"
    "archive (st ?p) = (case outgoingEntry e s of None \<Rightarrow> archive s | Some a \<Rightarrow> a # archive s)"
    "wordData (st ?p) = wordData s"
    by (simp_all add: pre_st split: option.splits)
  show ?thesis
    using newWordAmid_ledger [OF p(3) assms, of ws] p
    by (simp add: generateNewDayAmid_def ledgerOf_def)
qed

lemma generateNewDay_failure_run:
  assumes "wordData s (today e) = None"
    and "generateNonsenseWord e (aiProvider s) (getApiKey s) = None"
  shows "\<exists>r. generateNewDay e s = Inr r \<and>
           currentWord (st r) = Some (errorWord e) \<and>
           submissions (st r) = [] \<and>
           wordData (st r) = wordData s \<and>
           archive (st r) =
             (case outgoingEntry e s of None \<Rightarrow> archive s | Some a \<Rightarrow> a # archive s)"
proof -
  let ?p = "setSubmissions [] (archiveOutgoing e s (setIsLoading True (begin_run s)))"
  have c: "wordData (st ?p) (today e) = None"
    using assms(1) by (simp add: pre_st split: option.splits)
  have "st (newWord e s ?p) = (st ?p)\<lparr>currentWord := Some (errorWord e), isLoading := False\<rparr>"
    using newWord_failure [OF c assms(2)] by simp
  then show ?thesis
    by (simp add: generateNewDay_Inr pre_st split: option.splits)
qed

lemma generateNewDay_uncached:
  assumes "wordData s (today e) = None"
  shows "\<exists>r. generateNewDay e s = Inr r \<and>
           GenerateNonsenseWord \<in> set (calls r) \<and>
           archive (st r) =
             (case outgoingEntry e s of None \<Rightarrow> archive s | Some a \<Rightarrow> a # archive s)"
proof -
  let ?p = "setSubmissions [] (archiveOutgoing e s (setIsLoading True (begin_run s)))"
  have c: "wordData (st ?p) (today e) = None"
    using assms(1) by (simp add: pre_st split: option.splits)
  have a: "archive (st (newWord e s ?p)) = archive (st ?p)"
    by (simp add: newWord_def setters Let_def split: option.splits)
  have k: "GenerateNonsenseWord \<in> set (calls (newWord e s ?p))"
    using c by (simp add: newWord_def setters Let_def split: option.splits)
  show ?thesis
    using a k by (simp add: generateNewDay_Inr pre_st split: option.splits)
qed

lemma generateNewDay_cached:
  assumes "wordData s (today e) = Some w"
  shows "\<exists>r. generateNewDay e s = Inr r \<and>
           currentWord (st r) = Some w \<and>
           submissions (st r) = [] \<and>
           wordData (st r) = wordData s \<and>
           archive (st r) =
             (case outgoingEntry e s of None \<Rightarrow> archive s | Some a \<Rightarrow> a # archive s) \<and>
           GenerateNonsenseWord \<notin> set (calls r)"
proof -
  let ?p = "setSubmissions [] (archiveOutgoing e s (setIsLoading True (begin_run s)))"
  have c: "wordData (st ?p) (today e) = Some w"
    using assms by (simp add: pre_st split: option.splits)
  have k: "GenerateNonsenseWord \<notin> set (calls ?p)"
    by (simp add: setSubmissions_def archiveOutgoing_calls setIsLoading_def)
  show ?thesis
    using newWord_cached [OF c, of s] k
    by (simp add: generateNewDay_Inr pre_st split: option.splits)
qed

lemma repeatNewDay_steady:
  assumes "wordData s (today e) = Some w" and "currentWord s = Some w" and "submissions s = []"
  shows "\<exists>s'. repeatNewDay n e s = Inr s' \<and> currentWord s' = Some w \<and> submissions s' = [] \<and>
           archive s' = replicate n (archivedEntry w sentinel) @ archive s"
  using assms
proof (induction n arbitrary: s)
  case 0
  then show ?case by simp
next
  case (Suc n)
  obtain r where r: "generateNewDay e s = Inr r" "currentWord (st r) = Some w"
    "submissions (st r) = []" "wordData (st r) = wordData s"
    "archive (st r) = (case outgoingEntry e s of None \<Rightarrow> archive s | Some a \<Rightarrow> a # archive s)"
    using generateNewDay_cached [OF Suc.prems(1)] by blast
  have a: "archive (st r) = archivedEntry w sentinel # archive s"
    using r(5) Suc.prems by (simp add: outgoingEntry_def)
  have "wordData (st r) (today e) = Some w"
    using r(4) Suc.prems(1) by simp
  from Suc.IH [OF this r(2) r(3)] obtain s' where
    "repeatNewDay n e (st r) = Inr s'" "currentWord s' = Some w" "submissions s' = []"
    "archive s' = replicate n (archivedEntry w sentinel) @ archive (st r)"
    by blast
  then show ?case
    using r(1) a by (simp add: replicate_app_Cons_same)
qed

lemma tryLoadFromBackend_stored:
  assumes "backendWord e b = None" and "stored_currentWord s = Some lw" and "date lw = today e"
  shows "\<exists>r. tryLoadFromBackend e b s = Inr r \<and> currentWord (st r) = Some lw \<and> calls r = []"
  using assms
  by (simp add: tryLoadFromBackend_def setters split: option.splits)

subsection \<open>Submissions\<close>

lemma likeSubmission_no_match:
  "i \<notin> sub_id ` set xs \<Longrightarrow>
   map (\<lambda>sub. if sub_id sub = i then sub\<lparr>likes := likes sub + 1\<rparr> else sub) xs = xs"
  by (induction xs) auto

lemma dropWhile_replicate_same:
  "\<not> P c \<Longrightarrow> dropWhile P (replicate n c) = replicate n c"
  by (cases n) simp_all

lemma trim_replicate:
  "\<not> isSpace c \<Longrightarrow> trim (replicate n c) = replicate n c"
  by (simp add: trim_def dropWhile_replicate_same)

lemma trim_nonempty: "trim t \<noteq> [] \<Longrightarrow> t \<noteq> []"
  by (auto simp: trim_def)

lemma addSubmission_rejects: "trim t = [] \<Longrightarrow> addSubmission e t s = Inr s"
  by (simp add: addSubmission_def)

lemma addSubmission_accepts:
  "trim t \<noteq> [] \<Longrightarrow>
   addSubmission e t s =
     Inr (s\<lparr>submissions := submissions s @
       [\<lparr>sub_id = generateUniqueId e, sub_text = trim t,
         sub_username = (if username s \<noteq> [] then username s else getRandomUsername e),
         likes = 0, sub_date = None, sub_image = None\<rparr>]\<rparr>)"
  by (simp add: addSubmission_def Let_def)

lemma api_submit_rejects:
  "trim t = [] \<Longrightarrow>
   api_submit se \<lparr>body_text = Some t, body_username = u, imageProvider = p\<rparr> d
     = (Inl (HttpError 400 ''Text is required''), d)"
  by (simp add: api_submit_def textOf_def)

lemma api_submit_accepts:
  assumes "trim t \<noteq> []"
  shows "api_submit se \<lparr>body_text = Some t, body_username = u, imageProvider = p\<rparr> d
     = (Inr \<lparr>sub_id = uuidv4 se, sub_text = trim t,
             sub_username = (if truthy u \<and> trim (textOf u) \<noteq> [] then trim (textOf u)
                             else randomUsername se),
             likes = 0, sub_date = Some (isoNow se), sub_image = submissionImage se p t\<rparr>,
        d\<lparr>data_submissions := data_submissions d @
          [\<lparr>sub_id = uuidv4 se, sub_text = trim t,
            sub_username = (if truthy u \<and> trim (textOf u) \<noteq> [] then trim (textOf u)
                            else randomUsername se),
            likes = 0, sub_date = Some (isoNow se), sub_image = submissionImage se p t\<rparr>]\<rparr>)"
proof -
  have "t \<noteq> []" using assms by (rule trim_nonempty)
  with assms show ?thesis
    by (simp add: api_submit_def textOf_def truthy_def Let_def)
qed

subsection \<open>Word generation on the server\<close>





lemma api_generate_rejects:
  "generateContent se WordPrompt = Rejects msg \<Longrightarrow> \<exists>err. api_generate se b d = (Inl err, d)"
  by (simp add: api_generate_def Let_def)

lemma api_generate_success:
  "fst (api_generate se b d) = Inr cur \<Longrightarrow>
   snd (api_generate se b d) = d\<lparr>data_current := Some cur, data_submissions := []\<rparr>"
  by (auto simp: api_generate_def Let_def split: if_splits reply.splits)


section \<open>The claims\<close>

subsection \<open>C1: a failed word generation\<close>

text \<open>
  Claim C1, as amended. When word generation fails in \<^verbatim>\<open>generateNewDay\<close> and no word
  is cached for today, nothing is rolled back: the call returns normally, the
  submissions are cleared, the entry that step 1 archived (if any) stays at the head of
  the archive, and the current word is replaced by the placeholder. The server's
  \<^verbatim>\<open>POST /api/generate\<close> does leave \<^verbatim>\<open>data.json\<close> as it was when word generation
  fails: it answers with an error and writes nothing.
\<close>

theorem generateNewDay_generation_failure:
  "(wordData s (today e) = None \<and> generateNonsenseWord e (aiProvider s) (getApiKey s) = None
      \<longrightarrow>
      (\<exists>r. generateNewDay e s = Inr r \<and>
         currentWord (st r) = Some (errorWord e) \<and>
         submissions (st r) = [] \<and>
         archive (st r) =
           (case outgoingEntry e s of None \<Rightarrow> archive s | Some a \<Rightarrow> a # archive s)))
   \<and>
   (generateContent se WordPrompt = Rejects msg \<longrightarrow>
      (\<exists>err. api_generate se b d = (Inl err, d)))"
  using generateNewDay_failure_run [of s e] api_generate_rejects [of se msg b d]
  by blast

theorem generateNewDay_generation_failure_witness:
  "wordData state0 (today (world None None)) = None \<and>
   generateNonsenseWord (world None None) (aiProvider state0) (getApiKey state0) = None \<and>
   (\<exists>r. generateNewDay (world None None) state0 = Inr r \<and>
      currentWord (st r) = Some (errorWord (world None None)) \<and>
      submissions (st r) = [] \<and>
      archive (st r) = [archivedEntry blorvek [''a floating feeling'']]) \<and>
   generateContent (serverWorld (Rejects ''quota'')) WordPrompt = Rejects ''quota'' \<and>
   (\<exists>err. api_generate (serverWorld (Rejects ''quota'')) noBody data0 = (Inl err, data0))"
  using generateNewDay_generation_failure
    [of state0 "world None None" "serverWorld (Rejects ''quota'')" "''quota''" noBody data0]
  by (simp add: outgoingEntry_def state0_def world_def blorvek_def feeling_def serverWorld_def)

text \<open>
  The claim as stated fails: in the spec's scenario the ledger after the failed call is
  not the ledger before it.
\<close>

theorem rollover_rollback_counterexample:
  "ledgerOf state0 = (Some blorvek, [feeling], []) \<and>
   map_sum id (\<lambda>r. ledgerOf (st r)) (generateNewDay (world None None) state0) =
     Inr (Some \<lparr>word = ''Error'', image_b64 = None, date = ''2024-01-02'', aiMeaning = None\<rparr>,
          [],
          [archivedEntry blorvek [''a floating feeling'']])"
  by (simp add: callback_defs example_defs)

subsection \<open>C2: the order of the writes of a rollover\<close>

text \<open>
  Claim C2, as amended. \<^verbatim>\<open>generateNewDay\<close> does not make a rollover one transaction:
  it makes its updates as separate setter calls, in a fixed order. In a call that no
  other writer comes between, the states after the setter calls are, in this order:
  states that still have the outgoing current word and the old submissions, among which
  the entry of step 1, if any, is put at the head of the archive; then the state with
  the pool cleared, which has the outgoing current word, no submissions and the archive
  in its final form; then at least one state with no submissions and the final archive,
  the last of which is the state the call ends in. The call ends with the word of step 3
  as the current word, no submissions, and the archive of step 1. When no word is cached
  for today, the call is suspended between the clearing and the replacement of the
  current word, and the pool writes that other writers (the poll of the backend's
  submissions, \<^verbatim>\<open>addSubmission\<close>, \<^verbatim>\<open>addSubmissionFromServer\<close>) make meanwhile are
  not cleared again: the call ends with the new current word beside the pool those
  writes leave. The server's \<^verbatim>\<open>POST /api/generate\<close> sets the current word and clears
  the submissions in one write and leaves the archive as it is.
\<close>

theorem generateNewDay_write_order:
  "(\<exists>r h1 s2 h3. generateNewDay e s = Inr r \<and> hist r = h1 @ [s2] @ h3 \<and>
     (\<forall>x \<in> set h1. currentWord x = currentWord s \<and> submissions x = submissions s \<and>
        (archive x = archive s \<or>
         archive x = (case outgoingEntry e s of None \<Rightarrow> archive s | Some a \<Rightarrow> a # archive s))) \<and>
     ledgerOf s2 = (currentWord s, [],
        (case outgoingEntry e s of None \<Rightarrow> archive s | Some a \<Rightarrow> a # archive s)) \<and>
     h3 \<noteq> [] \<and>
     (\<forall>x \<in> set h3. submissions x = [] \<and>
        archive x = (case outgoingEntry e s of None \<Rightarrow> archive s | Some a \<Rightarrow> a # archive s)) \<and>
     last h3 = st r \<and>
     ledgerOf (st r) = (Some (nextWord e s), [],
        (case outgoingEntry e s of None \<Rightarrow> archive s | Some a \<Rightarrow> a # archive s)))
   \<and>
   generateNewDayAmid e [] s = generateNewDay e s
   \<and>
   (wordData s (today e) = None \<longrightarrow>
      (\<exists>r. generateNewDayAmid e ws s = Inr r \<and>
         ledgerOf (st r) = (Some (nextWord e s), fold applyPoolWrite ws [],
           (case outgoingEntry e s of None \<Rightarrow> archive s | Some a \<Rightarrow> a # archive s))))
   \<and>
   (fst (api_generate se b d) = Inr cur \<longrightarrow>
      snd (api_generate se b d) = d\<lparr>data_current := Some cur, data_submissions := []\<rparr>)"
  using generateNewDay_phases [of e s] generateNewDayAmid_Nil [of e s]
    generateNewDayAmid_ledger [of s e ws] api_generate_success [of se b d cur]
  by blast

theorem generateNewDay_write_order_witness:
  "(\<exists>r h1 s2 h3. generateNewDay (world (Some ''Zorble'') None) state0 = Inr r \<and>
      hist r = h1 @ [s2] @ h3 \<and> h3 \<noteq> [] \<and>
      ledgerOf s2 = (Some blorvek, [], [archivedEntry blorvek [''a floating feeling'']]) \<and>
      last h3 = st r \<and>
      ledgerOf (st r) = (Some zorble, [], [archivedEntry blorvek [''a floating feeling'']])) \<and>
   wordData state0 (today (world (Some ''Zorble'') None)) = None \<and>
   (\<exists>r. generateNewDayAmid (world (Some ''Zorble'') None) [Poll [feeling]] state0 = Inr r \<and>
      ledgerOf (st r) = (Some zorble, [feeling], [archivedEntry blorvek [''a floating feeling'']])) \<and>
   fst (api_generate (serverWorld (Response (Some ''Zorble''))) noBody data0) =
     Inr (zorble\<lparr>aiMeaning := Some ''a meaning''\<rparr>) \<and>
   snd (api_generate (serverWorld (Response (Some ''Zorble''))) noBody data0) =
     \<lparr>data_current = Some (zorble\<lparr>aiMeaning := Some ''a meaning''\<rparr>), data_submissions = [],
      data_archive = []\<rparr>"
proof -
  note inst = generateNewDay_write_order [of "world (Some ''Zorble'') None" state0
      "[Poll [feeling]]" "serverWorld (Response (Some ''Zorble''))" noBody data0
      "zorble\<lparr>aiMeaning := Some ''a meaning''\<rparr>"]
  have n: "nextWord (world (Some ''Zorble'') None) state0 = zorble"
    by (simp add: nextWord_def world_def state0_def zorble_def)
  have o: "outgoingEntry (world (Some ''Zorble'') None) state0 =
      Some (archivedEntry blorvek [''a floating feeling''])"
    by (simp add: outgoingEntry_def world_def state0_def blorvek_def feeling_def)
  have c: "currentWord state0 = Some blorvek" "archive state0 = []"
    "wordData state0 (today (world (Some ''Zorble'') None)) = None"
    by (simp_all add: state0_def)
  have f: "fst (api_generate (serverWorld (Response (Some ''Zorble''))) noBody data0) =
     Inr (zorble\<lparr>aiMeaning := Some ''a meaning''\<rparr>)"
    by (simp add: api_generate_def serverWorld_def noBody_def orElse_def truthy_def
        wordOfResponse_def textOf_def trim_def isSpace_def isAlpha_def zorble_def Let_def)
  have g: "snd (api_generate (serverWorld (Response (Some ''Zorble''))) noBody data0) =
     \<lparr>data_current = Some (zorble\<lparr>aiMeaning := Some ''a meaning''\<rparr>), data_submissions = [],
      data_archive = []\<rparr>"
    using inst f by (simp add: data0_def)
  from inst obtain r h1 s2 h3 where
    r: "generateNewDay (world (Some ''Zorble'') None) state0 = Inr r" "hist r = h1 @ [s2] @ h3"
      "h3 \<noteq> []"
      "ledgerOf s2 = (Some blorvek, [], [archivedEntry blorvek [''a floating feeling'']])"
      "last h3 = st r"
      "ledgerOf (st r) = (Some zorble, [], [archivedEntry blorvek [''a floating feeling'']])"
    unfolding n o c(1) c(2) by auto
  from inst c(3) obtain r' where
    r': "generateNewDayAmid (world (Some ''Zorble'') None) [Poll [feeling]] state0 = Inr r'"
      "ledgerOf (st r') = (Some zorble, [feeling], [archivedEntry blorvek [''a floating feeling'']])"
    unfolding n o c(1) c(2) by auto
  show ?thesis
    using r r' c(3) f g by blast
qed

text \<open>
  The claim as stated fails, in the spec's scenario. The states after the setter calls
  of one successful rollover pass through four ledgers; the third, with the pool cleared
  beside the outgoing word, stands while the word generator is awaited. And when the
  poll of the backend's submissions, which the rollover does not clear, answers during
  that wait, the call ends with the old submission beside the new current word.
\<close>

theorem rollover_transaction_counterexample:
  "map_sum id (\<lambda>r. remdups_adj (map ledgerOf (hist r)))
     (generateNewDay (world (Some ''Zorble'') None) state0) =
   Inr [(Some blorvek, [feeling], []),
        (Some blorvek, [feeling], [archivedEntry blorvek [''a floating feeling'']]),
        (Some blorvek, [], [archivedEntry blorvek [''a floating feeling'']]),
        (Some zorble, [], [archivedEntry blorvek [''a floating feeling'']])] \<and>
   map_sum id (\<lambda>r. ledgerOf (st r))
     (generateNewDayAmid (world (Some ''Zorble'') None) [Poll [feeling]] state0) =
   Inr (Some zorble, [feeling], [archivedEntry blorvek [''a floating feeling'']])"
  by (simp add: callback_defs example_defs)

subsection \<open>C3: repeated calls on one day\<close>

text \<open>
  Claim C3, as amended. \<^verbatim>\<open>generateNewDay\<close> has no check of the current word's date.
  When a word is cached for today, every call ends with that word as the current word,
  so any number of successive calls on that day give the same current word; but each
  call is a rollover: it clears the submissions and puts an entry for the outgoing word
  at the head of the archive. After \<open>n + 1\<close> calls the archive holds what the first call
  made of it, under \<open>n\<close> further entries for the cached word, each with the sentinel
  definition.
\<close>

theorem generateNewDay_repeated_same_day:
  assumes "wordData s (today e) = Some w"
  shows "\<exists>s'. repeatNewDay (Suc n) e s = Inr s' \<and>
           currentWord s' = Some w \<and> submissions s' = [] \<and>
           archive s' = replicate n (archivedEntry w sentinel) @
             (case outgoingEntry e s of None \<Rightarrow> archive s | Some a \<Rightarrow> a # archive s)"
proof -
  obtain r where r: "generateNewDay e s = Inr r" "currentWord (st r) = Some w"
    "submissions (st r) = []" "wordData (st r) = wordData s"
    "archive (st r) = (case outgoingEntry e s of None \<Rightarrow> archive s | Some a \<Rightarrow> a # archive s)"
    using generateNewDay_cached [OF assms] by blast
  have "wordData (st r) (today e) = Some w"
    using r(4) assms by simp
  from repeatNewDay_steady [OF this r(2) r(3), of n] r(1) r(5) show ?thesis
    by simp
qed

theorem generateNewDay_repeated_same_day_witness:
  "wordData cachedState (today (world (Some ''Quandle'') None)) = Some zorble \<and>
   (\<exists>s'. repeatNewDay 3 (world (Some ''Quandle'') None) cachedState = Inr s' \<and>
      currentWord s' = Some zorble \<and> submissions s' = [] \<and>
      archive s' = [archivedEntry zorble sentinel, archivedEntry zorble sentinel,
                    archivedEntry zorble [''a floating feeling'']])"
  using generateNewDay_repeated_same_day [of cachedState "world (Some ''Quandle'') None" zorble 2]
  by (simp add: outgoingEntry_def cachedState_def state0_def world_def zorble_def feeling_def
      numeral_2_eq_2 numeral_3_eq_3)

text \<open>
  The claim as stated fails: with a current word dated today and that word cached, one
  call clears the pool and archives the word, and two calls archive it twice.
\<close>

theorem same_day_noop_counterexample:
  "ledgerOf cachedState = (Some zorble, [feeling], []) \<and>
   date zorble = today (world (Some ''Quandle'') None) \<and>
   map_sum id (\<lambda>r. ledgerOf (st r)) (generateNewDay (world (Some ''Quandle'') None) cachedState) =
     Inr (Some zorble, [], [archivedEntry zorble [''a floating feeling'']]) \<and>
   map_sum id ledgerOf (repeatNewDay 2 (world (Some ''Quandle'') None) cachedState) =
     Inr (Some zorble, [],
          [archivedEntry zorble sentinel, archivedEntry zorble [''a floating feeling'']])"
  by (simp add: callback_defs example_defs numeral_2_eq_2)

subsection \<open>C4: setting the word by hand\<close>

text \<open>
  Claim C4, as amended. \<^verbatim>\<open>manuallySetWord\<close> sets the current word to the given
  literal with today's date, clears the submissions and leaves the archive unchanged:
  the outgoing word is not archived. It calls the image generator once when a ClipDrop
  key is set, and not at all otherwise; a failed image leaves the new word without one.
\<close>

theorem manuallySetWord_effect:
  "\<exists>r. manuallySetWord e w s = Inr r \<and>
     currentWord (st r) =
       Some \<lparr>word = w,
             image_b64 = (if clipdrop (apiKeys s) \<noteq> []
                          then generateImageWithClipDrop e (clipdrop (apiKeys s)) w else None),
             date = today e, aiMeaning = None\<rparr> \<and>
     submissions (st r) = [] \<and>
     archive (st r) = archive s \<and>
     calls r = (if clipdrop (apiKeys s) \<noteq> [] then [GenerateImageWithClipDrop w] else [])"
  by (simp add: manuallySetWord_def setters Let_def)

text \<open>
  The claim as stated fails: a current word exists, and after the call the archive is
  still empty.
\<close>

theorem force_set_archive_counterexample:
  "ledgerOf state0 = (Some blorvek, [feeling], []) \<and>
   map_sum id (\<lambda>r. ledgerOf (st r)) (manuallySetWord (world None (Some ''png'')) ''Quib'' state0) =
     Inr (Some \<lparr>word = ''Quib'', image_b64 = Some ''png'', date = ''2024-01-02'',
                aiMeaning = None\<rparr>,
          [], [])"
  by (simp add: callback_defs example_defs)

subsection \<open>C5: liking a submission\<close>

text \<open>
  Claim C5, as amended. \<^verbatim>\<open>likeSubmission\<close> has no failure: it returns normally for every
  id. It adds one to the likes of every submission that carries the id (exactly one when
  ids are distinct) and leaves every other submission, and the order, as they are; with
  an id that no submission carries the state is unchanged.
\<close>

theorem likeSubmission_effect:
  "\<exists>s'. likeSubmission i s = Inr s' \<and>
     length (submissions s') = length (submissions s) \<and>
     (\<forall>k < length (submissions s).
        submissions s' ! k =
          (if sub_id (submissions s ! k) = i
           then (submissions s ! k)\<lparr>likes := likes (submissions s ! k) + 1\<rparr>
           else submissions s ! k)) \<and>
     (i \<notin> sub_id ` set (submissions s) \<longrightarrow> s' = s)"
  by (simp add: likeSubmission_def likeSubmission_no_match)

theorem likeSubmission_effect_witness:
  "(\<exists>s'. likeSubmission ''s1'' state0 = Inr s' \<and> submissions s' = [feeling\<lparr>likes := 1\<rparr>]) \<and>
   ''nope'' \<notin> sub_id ` set (submissions state0) \<and>
   (\<exists>s'. likeSubmission ''nope'' state0 = Inr s' \<and> s' = state0)"
  using likeSubmission_effect [of "''s1''" state0] likeSubmission_effect [of "''nope''" state0]
  by (auto simp add: state0_def feeling_def likeSubmission_def)

text \<open>
  The claim as stated fails: for an id that matches nothing the call returns normally,
  not with an error.
\<close>

theorem like_not_found_counterexample:
  "likeSubmission ''nope'' state0 = Inr state0"
  by (simp add: likeSubmission_def state0_def feeling_def)

subsection \<open>C6: validation of a submission\<close>

text \<open>
  Claim C6, as amended. A text that is empty after trimming is refused and nothing is
  appended: the server's \<^verbatim>\<open>POST /api/submit\<close> answers 400 "Text is required", and the
  client's \<^verbatim>\<open>addSubmission\<close> returns without an error. Every text that is not empty
  after trimming is accepted, whatever its length, and one submission with the trimmed
  text and no likes is appended at the end of the pool. Neither path bounds the length;
  the bound of 280 is the \<^verbatim>\<open>maxLength\<close> of the form's text area only.
\<close>

theorem submit_validation:
  "(trim t = [] \<longrightarrow>
      addSubmission e t s = Inr s \<and>
      api_submit se \<lparr>body_text = Some t, body_username = u, imageProvider = p\<rparr> d
        = (Inl (HttpError 400 ''Text is required''), d))
   \<and>
   (trim t \<noteq> [] \<longrightarrow>
      addSubmission e t s =
        Inr (s\<lparr>submissions := submissions s @
          [\<lparr>sub_id = generateUniqueId e, sub_text = trim t,
            sub_username = (if username s \<noteq> [] then username s else getRandomUsername e),
            likes = 0, sub_date = None, sub_image = None\<rparr>]\<rparr>) \<and>
      api_submit se \<lparr>body_text = Some t, body_username = u, imageProvider = p\<rparr> d
        = (Inr \<lparr>sub_id = uuidv4 se, sub_text = trim t,
                sub_username = (if truthy u \<and> trim (textOf u) \<noteq> [] then trim (textOf u)
                                else randomUsername se),
                likes = 0, sub_date = Some (isoNow se), sub_image = submissionImage se p t\<rparr>,
           d\<lparr>data_submissions := data_submissions d @
             [\<lparr>sub_id = uuidv4 se, sub_text = trim t,
               sub_username = (if truthy u \<and> trim (textOf u) \<noteq> [] then trim (textOf u)
                               else randomUsername se),
               likes = 0, sub_date = Some (isoNow se), sub_image = submissionImage se p t\<rparr>]\<rparr>))"
  using addSubmission_rejects [of t e s] api_submit_rejects [of t se u p d]
    addSubmission_accepts [of t e s] api_submit_accepts [of t se u p d]
  by blast

theorem submit_validation_witness:
  "trim '' '' = [] \<and>
   addSubmission (world None None) '' '' state0 = Inr state0 \<and>
   api_submit (serverWorld (Rejects [])) \<lparr>body_text = Some '' '', body_username = None,
       imageProvider = None\<rparr> data0
     = (Inl (HttpError 400 ''Text is required''), data0) \<and>
   trim '' a glow '' = ''a glow'' \<and>
   map_sum id (\<lambda>s'. map sub_text (submissions s')) (addSubmission (world None None) '' a glow '' state0)
     = Inr [''a floating feeling'', ''a glow''] \<and>
   map_sum id sub_text
     (fst (api_submit (serverWorld (Rejects [])) \<lparr>body_text = Some '' a glow '',
        body_username = None, imageProvider = None\<rparr> data0))
     = Inr ''a glow''"
proof -
  have a: "trim '' '' = []" and b: "trim '' a glow '' = ''a glow''"
    by (simp_all add: trim_def isSpace_def)
  have c: "''a glow'' \<noteq> []" by simp
  show ?thesis
    using submit_validation [of "'' ''" "world None None" state0 "serverWorld (Rejects [])" None None data0]
      submit_validation [of "'' a glow ''" "world None None" state0 "serverWorld (Rejects [])" None None data0]
    by (simp only: a b) (simp add: state0_def feeling_def)
qed

text \<open>
  The claim as stated fails: a text of 281 characters is accepted and appended by both
  paths.
\<close>

theorem submit_length_counterexample:
  "length (replicate 281 (CHR ''a'')) = 281 \<and>
   map_sum id (\<lambda>s'. map sub_text (submissions s'))
     (addSubmission (world None None) (replicate 281 (CHR ''a'')) state0) =
     Inr [''a floating feeling'', replicate 281 (CHR ''a'')] \<and>
   map_prod (map_sum id sub_text) (\<lambda>d. map sub_text (data_submissions d))
     (api_submit (serverWorld (Rejects []))
        \<lparr>body_text = Some (replicate 281 (CHR ''a'')), body_username = None, imageProvider = None\<rparr>
        data0) =
     (Inr (replicate 281 (CHR ''a'')), [''a floating feeling'', replicate 281 (CHR ''a'')])"
proof -
  have n: "\<not> isSpace (CHR ''a'')" by (simp add: isSpace_def)
  have t: "trim (replicate 281 (CHR ''a'')) = replicate 281 (CHR ''a'')"
    using n by (rule trim_replicate)
  have ne: "replicate 281 (CHR ''a'') \<noteq> []"
    by (simp only: replicate_empty)
  show ?thesis
    using ne
    by (simp add: addSubmission_accepts api_submit_accepts t state0_def feeling_def data0_def
        del: replicate.simps)
qed

subsection \<open>C7: the generated word\<close>




subsection \<open>C8: a rollover with an empty pool\<close>

text \<open>
  Claim C8. When \<^verbatim>\<open>generateNewDay\<close> runs with an empty pool of submissions, the
  summarization service is not called, and the entry archived for the outgoing word, if
  there is a current word, carries the single definition "No definitions were submitted
  for this word."; without a current word the archive is unchanged.
\<close>

theorem generateNewDay_empty_pool:
  assumes "submissions s = []"
  shows "\<exists>r. generateNewDay e s = Inr r \<and>
           filter isSummarize (calls r) = [] \<and>
           archive (st r) =
             (case currentWord s of
                None \<Rightarrow> archive s
              | Some cw \<Rightarrow>
                  \<lparr>word = word cw, image_b64 = image_b64 cw, date = date cw,
                   aiMeaning = aiMeaning cw,
                   winningDefinitions = [''No definitions were submitted for this word.'']\<rparr>
                  # archive s)"
  using assms
  by (auto simp add: generateNewDay_def newWord_def archiveOutgoing_def setters Let_def
      archivedEntry_def sentinel_def split: option.splits if_splits)

theorem generateNewDay_empty_pool_witness:
  "submissions (state0\<lparr>submissions := []\<rparr>) = [] \<and>
   (\<exists>r. generateNewDay (world (Some ''Zorble'') None) (state0\<lparr>submissions := []\<rparr>) = Inr r \<and>
      filter isSummarize (calls r) = [] \<and>
      archive (st r) =
        [\<lparr>word = ''Blorvek'', image_b64 = None, date = ''2024-01-01'', aiMeaning = None,
          winningDefinitions = [''No definitions were submitted for this word.'']\<rparr>])"
  using generateNewDay_empty_pool [of "state0\<lparr>submissions := []\<rparr>" "world (Some ''Zorble'') None"]
  by (simp add: state0_def blorvek_def)

subsection \<open>C9: a failed image generation\<close>

text \<open>
  Claim C9. When image generation fails, the operation around it still completes. A
  rollover by \<^verbatim>\<open>generateNewDay\<close> whose word generation succeeds ends with the new word
  as the current word, dated today and without an image. \<^verbatim>\<open>regenerateImage\<close> returns
  normally (after an alert) and leaves the current word, its image included, as it was.
\<close>

theorem image_failure_is_not_fatal:
  "(wordData s (today e) = None \<and>
    generateNonsenseWord e (aiProvider s) (getApiKey s) = Some w \<and>
    generateImageWithClipDrop e (clipdrop (apiKeys s)) w = None \<longrightarrow>
      (\<exists>r. generateNewDay e s = Inr r \<and>
         currentWord (st r) =
           Some \<lparr>word = w, image_b64 = None, date = today e, aiMeaning = None\<rparr>))
   \<and>
   (currentWord s = Some cw \<and>
    generateImageWithClipDrop e (clipdrop (apiKeys s)) (word cw) = None \<longrightarrow>
      (\<exists>r. regenerateImage e s = Inr r \<and> currentWord (st r) = Some cw))"
proof -
  have roll: "\<exists>r. generateNewDay e s = Inr r \<and>
         currentWord (st r) = Some \<lparr>word = w, image_b64 = None, date = today e, aiMeaning = None\<rparr>"
    if a: "wordData s (today e) = None \<and>
      generateNonsenseWord e (aiProvider s) (getApiKey s) = Some w \<and>
      generateImageWithClipDrop e (clipdrop (apiKeys s)) w = None"
  proof -
    let ?p = "setSubmissions [] (archiveOutgoing e s (setIsLoading True (begin_run s)))"
    have c: "wordData (st ?p) (today e) = None"
      using a by (simp add: pre_st split: option.splits)
    have "currentWord (st (newWord e s ?p)) =
        Some \<lparr>word = w, image_b64 = None, date = today e, aiMeaning = None\<rparr>"
      using a c by (simp add: newWord_def setters Let_def)
    then show ?thesis
      by (simp add: generateNewDay_Inr)
  qed
  have regen: "\<exists>r. regenerateImage e s = Inr r \<and> currentWord (st r) = Some cw"
    if "currentWord s = Some cw \<and>
      generateImageWithClipDrop e (clipdrop (apiKeys s)) (word cw) = None"
    using that by (simp add: regenerateImage_def setters Let_def)
  show ?thesis
    using roll regen by blast
qed

theorem image_failure_is_not_fatal_witness:
  "wordData state0 (today (world (Some ''Zorble'') None)) = None \<and>
   generateNonsenseWord (world (Some ''Zorble'') None) (aiProvider state0) (getApiKey state0)
     = Some ''Zorble'' \<and>
   generateImageWithClipDrop (world (Some ''Zorble'') None) (clipdrop (apiKeys state0)) ''Zorble''
     = None \<and>
   (\<exists>r. generateNewDay (world (Some ''Zorble'') None) state0 = Inr r \<and>
      currentWord (st r) = Some zorble) \<and>
   currentWord (state0\<lparr>currentWord := Some (blorvek\<lparr>image_b64 := Some ''old-png''\<rparr>)\<rparr>)
     = Some (blorvek\<lparr>image_b64 := Some ''old-png''\<rparr>) \<and>
   (\<exists>r. regenerateImage (world (Some ''Zorble'') None)
           (state0\<lparr>currentWord := Some (blorvek\<lparr>image_b64 := Some ''old-png''\<rparr>)\<rparr>) = Inr r \<and>
      currentWord (st r) = Some (blorvek\<lparr>image_b64 := Some ''old-png''\<rparr>))"
  using image_failure_is_not_fatal [of state0 "world (Some ''Zorble'') None" "''Zorble''" blorvek]
    image_failure_is_not_fatal
      [of "state0\<lparr>currentWord := Some (blorvek\<lparr>image_b64 := Some ''old-png''\<rparr>)\<rparr>"
        "world (Some ''Zorble'') None" "''Zorble''" "blorvek\<lparr>image_b64 := Some ''old-png''\<rparr>"]
  by (simp add: state0_def world_def zorble_def blorvek_def)

subsection \<open>C10: the placeholder word\<close>

text \<open>
  Claim C10, as amended. When word generation fails in \<^verbatim>\<open>generateNewDay\<close> and no word
  is cached for today, the call ends with the submissions cleared and the placeholder
  word "Error", without an image and dated today, as the current word. No word is cached
  for the day, so a later call of \<^verbatim>\<open>generateNewDay\<close> on that day does not take the
  cached path: it archives the placeholder and calls the word generator again. The
  placeholder is kept by the loader that runs when the provider mounts: its date check
  accepts the persisted placeholder, with no service call, when the backend offers no
  word for today.
\<close>

theorem generateNewDay_placeholder:
  assumes "wordData s (today e) = None"
    and "generateNonsenseWord e (aiProvider s) (getApiKey s) = None"
  shows "\<exists>r. generateNewDay e s = Inr r \<and>
     submissions (st r) = [] \<and>
     currentWord (st r) =
       Some \<lparr>word = ''Error'', image_b64 = None, date = today e, aiMeaning = None\<rparr> \<and>
     wordData (st r) (today e) = None \<and>
     (\<forall>e'. today e' = today e \<longrightarrow>
        (\<exists>r'. generateNewDay e' (st r) = Inr r' \<and>
           GenerateNonsenseWord \<in> set (calls r') \<and>
           archive (st r') = archivedEntry (errorWord e) sentinel # archive (st r))) \<and>
     (\<forall>e' b s2. today e' = today e \<and> backendWord e' b = None \<and>
          stored_currentWord s2 = stored_currentWord (saveStateToLocalStorage (st r)) \<longrightarrow>
        (\<exists>r2. tryLoadFromBackend e' b s2 = Inr r2 \<and>
           currentWord (st r2) = Some (errorWord e) \<and> calls r2 = []))"
proof -
  obtain r where r: "generateNewDay e s = Inr r" "currentWord (st r) = Some (errorWord e)"
    "submissions (st r) = []" "wordData (st r) = wordData s"
    using generateNewDay_failure_run [OF assms] by blast
  have again: "\<exists>r'. generateNewDay e' (st r) = Inr r' \<and>
           GenerateNonsenseWord \<in> set (calls r') \<and>
           archive (st r') = archivedEntry (errorWord e) sentinel # archive (st r)"
    if "today e' = today e" for e'
  proof -
    have "wordData (st r) (today e') = None"
      using r(4) assms(1) that by simp
    moreover have "outgoingEntry e' (st r) = Some (archivedEntry (errorWord e) sentinel)"
      using r(2) r(3) by (simp add: outgoingEntry_def)
    ultimately show ?thesis
      using generateNewDay_uncached [of "st r" e'] by simp
  qed
  have load: "\<exists>r2. tryLoadFromBackend e' b s2 = Inr r2 \<and>
           currentWord (st r2) = Some (errorWord e) \<and> calls r2 = []"
    if "today e' = today e \<and> backendWord e' b = None \<and>
          stored_currentWord s2 = stored_currentWord (saveStateToLocalStorage (st r))" for e' b s2
  proof -
    have "stored_currentWord s2 = Some (errorWord e)"
      using that r(2) by (simp add: saveStateToLocalStorage_def)
    moreover have "date (errorWord e) = today e'"
      using that by (simp add: errorWord_def)
    ultimately show ?thesis
      using tryLoadFromBackend_stored [of e' b s2 "errorWord e"] that by simp
  qed
  show ?thesis
    using r again load assms(1) by (auto simp: errorWord_def)
qed

theorem generateNewDay_placeholder_witness:
  "wordData state0 (today (world None None)) = None \<and>
   generateNonsenseWord (world None None) (aiProvider state0) (getApiKey state0) = None \<and>
   (\<exists>r. generateNewDay (world None None) state0 = Inr r \<and>
      submissions (st r) = [] \<and>
      currentWord (st r) =
        Some \<lparr>word = ''Error'', image_b64 = None, date = ''2024-01-02'', aiMeaning = None\<rparr> \<and>
      (\<exists>r'. generateNewDay (world (Some ''Zorble'') None) (st r) = Inr r' \<and>
         GenerateNonsenseWord \<in> set (calls r')) \<and>
      (\<exists>r2. tryLoadFromBackend (world (Some ''Zorble'') None) (Some None)
              (saveStateToLocalStorage (st r)) = Inr r2 \<and>
         currentWord (st r2) =
           Some \<lparr>word = ''Error'', image_b64 = None, date = ''2024-01-02'', aiMeaning = None\<rparr> \<and>
         calls r2 = []))"
proof -
  have h1: "wordData state0 (today (world None None)) = None"
    by (simp add: state0_def)
  have h2: "generateNonsenseWord (world None None) (aiProvider state0) (getApiKey state0) = None"
    by (simp add: world_def)
  have d: "today (world (Some ''Zorble'') None) = today (world None None)"
    by (simp add: world_def)
  have b: "backendWord (world (Some ''Zorble'') None) (Some None) = None"
    by (simp add: backendWord_def)
  have t: "today (world None None) = ''2024-01-02''"
    by (simp add: world_def)
  from generateNewDay_placeholder [OF h1 h2] obtain r where
    r: "generateNewDay (world None None) state0 = Inr r" "submissions (st r) = []"
      "currentWord (st r) =
        Some \<lparr>word = ''Error'', image_b64 = None, date = today (world None None), aiMeaning = None\<rparr>"
      "\<forall>e'. today e' = today (world None None) \<longrightarrow>
        (\<exists>r'. generateNewDay e' (st r) = Inr r' \<and>
           GenerateNonsenseWord \<in> set (calls r') \<and>
           archive (st r') = archivedEntry (errorWord (world None None)) sentinel # archive (st r))"
      "\<forall>e' b s2. today e' = today (world None None) \<and> backendWord e' b = None \<and>
          stored_currentWord s2 = stored_currentWord (saveStateToLocalStorage (st r)) \<longrightarrow>
        (\<exists>r2. tryLoadFromBackend e' b s2 = Inr r2 \<and>
           currentWord (st r2) = Some (errorWord (world None None)) \<and> calls r2 = [])"
    by blast
  have again: "\<exists>r'. generateNewDay (world (Some ''Zorble'') None) (st r) = Inr r' \<and>
         GenerateNonsenseWord \<in> set (calls r')"
    using r(4) d by blast
  have load: "\<exists>r2. tryLoadFromBackend (world (Some ''Zorble'') None) (Some None)
              (saveStateToLocalStorage (st r)) = Inr r2 \<and>
         currentWord (st r2) = Some (errorWord (world None None)) \<and> calls r2 = []"
    using r(5) d b by blast
  show ?thesis
    using h1 h2 r(1) r(2) r(3) again load by (simp add: t errorWord_def)
qed

text \<open>
  The claim as stated fails: the state left by the failed call is \<open>afterFailure\<close>, and a
  second call on the same day, with the generator working again, archives the
  placeholder and makes the generated word the current word.
\<close>

theorem placeholder_retry_counterexample:
  "map_sum id st (generateNewDay (world None None) state0) = Inr afterFailure \<and>
   map_sum id (\<lambda>r. (ledgerOf (st r), calls r))
     (generateNewDay (world (Some ''Zorble'') None) afterFailure) =
     Inr ((Some zorble, [],
           [archivedEntry
              \<lparr>word = ''Error'', image_b64 = None, date = ''2024-01-02'', aiMeaning = None\<rparr>
              sentinel,
            archivedEntry blorvek [''a floating feeling'']]),
          [GenerateNonsenseWord, GenerateImageWithClipDrop ''Zorble''])"
  by (simp add: callback_defs example_defs)

end
